theory Spec2Isabelle
  imports Complex_Main
begin

section \<open>The link cell of the data grid (LinkCell.tsx)\<close>

text \<open>
  The development follows \<^verbatim>\<open>frontend/lib/src/components/widgets/DataFrame/columns/cells/LinkCell.tsx\<close>.
  The file defines the display-value resolver \<^verbatim>\<open>getLinkDisplayValue\<close>, the hit test
  \<^verbatim>\<open>onClickSelect\<close> and the renderer record \<^verbatim>\<open>linkCellRenderer\<close> with its callbacks
  \<^verbatim>\<open>draw\<close>, \<^verbatim>\<open>isMatch\<close>, \<^verbatim>\<open>measure\<close>, \<^verbatim>\<open>onSelect\<close>, \<^verbatim>\<open>onDelete\<close> and \<^verbatim>\<open>onPaste\<close>.

  Everything the file takes from its surroundings is a parameter of the model:
  the regular-expression engine of the JavaScript runtime, the canvas text metrics, and
  the helpers of the grid library.
\<close>

subsection \<open>JavaScript values\<close>

text \<open>
  A value that is a string or \<^verbatim>\<open>undefined\<close> is a \<open>string option\<close>, with \<open>None\<close> for
  \<^verbatim>\<open>undefined\<close>. The TypeScript type of \<^verbatim>\<open>href\<close> is \<^verbatim>\<open>string\<close>, but the code tests
  \<^verbatim>\<open>href === undefined\<close>, so the model admits an undefined \<^verbatim>\<open>href\<close> as well.
\<close>

text \<open>\<^verbatim>\<open>!v\<close> for a string or undefined: true for \<^verbatim>\<open>undefined\<close> and for the empty string.\<close>

definition js_not :: "string option \<Rightarrow> bool" where
  "js_not v = (case v of None \<Rightarrow> True | Some s \<Rightarrow> s = [])"

text \<open>The string conversion applied to an argument of \<^verbatim>\<open>measureText\<close> and \<^verbatim>\<open>fillText\<close>.\<close>

definition ToString :: "string option \<Rightarrow> string" where
  "ToString v = (case v of None \<Rightarrow> ''undefined'' | Some s \<Rightarrow> s)"

text \<open>\<^verbatim>\<open>a[i]\<close> on an array: an index past the end reads \<^verbatim>\<open>undefined\<close>.\<close>

fun js_index :: "string option list \<Rightarrow> nat \<Rightarrow> string option" where
  "js_index [] i = None"
| "js_index (v # vs) 0 = v"
| "js_index (v # vs) (Suc i) = js_index vs i"

datatype js_error = SyntaxError | TypeError

subsection \<open>The regular-expression engine of the runtime\<close>

text \<open>
  \<^verbatim>\<open>new RegExp(pattern, flags)\<close> returns a compiled expression or throws a
  \<^verbatim>\<open>SyntaxError\<close>. \<^verbatim>\<open>str.match(re)\<close> for an expression without the \<^verbatim>\<open>g\<close> flag returns
  \<^verbatim>\<open>null\<close> (here \<open>None\<close>) or the match array: the whole match at index 0, then one entry
  for each capturing group, \<^verbatim>\<open>undefined\<close> for a group that took no part in the match.
\<close>

record 'r RegExpEngine =
  new_RegExp :: "string \<Rightarrow> string \<Rightarrow> js_error + 'r"
  str_match :: "string \<Rightarrow> 'r \<Rightarrow> string option list option"

subsection \<open>getLinkDisplayValue\<close>

text \<open>
  The body of the \<^verbatim>\<open>try\<close> block (lines 75 to 88). Calling \<^verbatim>\<open>href.match\<close> on an undefined
  \<^verbatim>\<open>href\<close> throws a \<^verbatim>\<open>TypeError\<close>, after the expression has been compiled.
\<close>

definition getLinkDisplayValue_try ::
  "'r RegExpEngine \<Rightarrow> string option \<Rightarrow> string \<Rightarrow> js_error + string option" where
  "getLinkDisplayValue_try E href displayText =
     (case new_RegExp E displayText ''us'' of
        Inl err \<Rightarrow> Inl err
      | Inr displayTextRegex \<Rightarrow>
          (case href of
             None \<Rightarrow> Inl TypeError
           | Some h \<Rightarrow>
               (case str_match E h displayTextRegex of
                  Some patternMatch \<Rightarrow> Inr (js_index patternMatch 1)
                | None \<Rightarrow> Inr (Some displayText))))"

definition getLinkDisplayValue ::
  "'r RegExpEngine \<Rightarrow> string option \<Rightarrow> string option \<Rightarrow> string option" where
  "getLinkDisplayValue E href displayText =
     (case displayText of
        None \<Rightarrow> href
      | Some d \<Rightarrow>
          if js_not (Some d) then href
          else (case getLinkDisplayValue_try E href d of
                  Inr v \<Rightarrow> v
                | Inl err \<Rightarrow> Some d))"

subsection \<open>A fragment of the ECMAScript pattern language\<close>

text \<open>
  To evaluate the resolver on concrete inputs, the development carries a small backtracking
  engine for a fragment of the ECMAScript pattern language under the flags \<^verbatim>\<open>us\<close>:
  alternation, concatenation, the greedy quantifiers \<^verbatim>\<open>*\<close>, \<^verbatim>\<open>+\<close> and \<^verbatim>\<open>?\<close>, capturing
  groups, groups \<^verbatim>\<open>(?:...)\<close>, the dot (any character, by the \<^verbatim>\<open>s\<close> flag), the assertions
  \<^verbatim>\<open>^\<close> and \<^verbatim>\<open>$\<close>, the class escapes \<^verbatim>\<open>\d\<close> and \<^verbatim>\<open>\w\<close>, and escaped syntax characters.
  The fragment refuses every other construct (character classes in brackets, counted
  repetition, lazy quantifiers, lookaround, back references, named groups, other escapes)
  and every other flag string, which ECMAScript would accept; the general theorems
  below hold for every engine and do not depend on the fragment.
\<close>

datatype char_class = Digit | WordChar

datatype pattern =
    Empty
  | Lit char
  | Dot
  | Class char_class
  | Bol
  | Eol
  | Seq pattern pattern
  | Alt pattern pattern
  | Star pattern
  | Opt pattern
  | Group nat pattern

definition is_digit :: "char \<Rightarrow> bool" where
  "is_digit c = (c \<in> set ''0123456789'')"

definition is_word_char :: "char \<Rightarrow> bool" where
  "is_word_char c =
     (is_digit c \<or> c \<in> set ''abcdefghijklmnopqrstuvwxyz''
      \<or> c \<in> set ''ABCDEFGHIJKLMNOPQRSTUVWXYZ'' \<or> c = CHR ''_'')"

fun in_class :: "char_class \<Rightarrow> char \<Rightarrow> bool" where
  "in_class Digit c = is_digit c"
| "in_class WordChar c = is_word_char c"

text \<open>The syntax characters of the pattern grammar. Under the \<^verbatim>\<open>u\<close> flag an identity
  escape may name a syntax character or the slash, and nothing else.\<close>

definition syntax_chars :: "char list" where
  "syntax_chars = ''^$.*+?()[]{}|'' @ [CHR 0x5C]"

definition identity_escapes :: "char list" where
  "identity_escapes = CHR ''/'' # syntax_chars"

text \<open>A quantifier after an atom. A quantifier followed by \<^verbatim>\<open>?\<close> is lazy, which the
  fragment refuses.\<close>

definition parse_quant :: "pattern \<times> nat \<times> string \<Rightarrow> (pattern \<times> nat \<times> string) option" where
  "parse_quant t =
     (case t of (a, n, s) \<Rightarrow>
        (case s of
           [] \<Rightarrow> Some (a, n, s)
         | q # rest \<Rightarrow>
             if q = CHR ''*'' \<or> q = CHR ''+'' \<or> q = CHR ''?'' then
               (if take 1 rest = ''?'' then None
                else Some (if q = CHR ''*'' then Star a
                           else if q = CHR ''+'' then Seq a (Star a)
                           else Opt a, n, rest))
             else Some (a, n, s)))"

text \<open>The end of a group: the closing parenthesis, then a quantifier. \<open>wrap\<close> makes the
  group of its body.\<close>

definition close_group ::
  "(pattern \<Rightarrow> pattern) \<Rightarrow> (pattern \<times> nat \<times> string) option \<Rightarrow> (pattern \<times> nat \<times> string) option" where
  "close_group wrap body =
     (case body of
        None \<Rightarrow> None
      | Some (r, n, s) \<Rightarrow>
          (case s of
             [] \<Rightarrow> None
           | p # rest \<Rightarrow> if p = CHR '')'' then parse_quant (wrap r, n, rest) else None))"

text \<open>The parser, by recursive descent. The first argument bounds the depth of the
  recursion; the second is the index of the next capturing group, counted by opening
  parentheses from the left.\<close>

fun parse_disj :: "nat \<Rightarrow> nat \<Rightarrow> string \<Rightarrow> (pattern \<times> nat \<times> string) option"
  and parse_alt :: "nat \<Rightarrow> nat \<Rightarrow> string \<Rightarrow> (pattern \<times> nat \<times> string) option"
  and parse_atom :: "nat \<Rightarrow> nat \<Rightarrow> string \<Rightarrow> (pattern \<times> nat \<times> string) option"
where
  "parse_disj 0 n s = None"
| "parse_disj (Suc f) n s =
     (case parse_alt f n s of
        None \<Rightarrow> None
      | Some (a, n', rest) \<Rightarrow>
          if take 1 rest = ''|'' then
            (case parse_disj f n' (drop 1 rest) of
               None \<Rightarrow> None
             | Some (b, n'', rest') \<Rightarrow> Some (Alt a b, n'', rest'))
          else Some (a, n', rest))"
| "parse_alt 0 n s = None"
| "parse_alt (Suc f) n s =
     (if s = [] \<or> take 1 s = ''|'' \<or> take 1 s = '')'' then Some (Empty, n, s)
      else (case parse_atom f n s of
              None \<Rightarrow> None
            | Some (t, n', rest) \<Rightarrow>
                (case parse_alt f n' rest of
                   None \<Rightarrow> None
                 | Some (a, n'', rest') \<Rightarrow> Some (Seq t a, n'', rest'))))"
| "parse_atom 0 n s = None"
| "parse_atom (Suc f) n s =
     (case s of
        [] \<Rightarrow> None
      | c # cs \<Rightarrow>
          if c = CHR ''('' then
            (if take 2 cs = ''?:'' then close_group (\<lambda>r. r) (parse_disj f n (drop 2 cs))
             else if take 1 cs = ''?'' then None
             else close_group (Group n) (parse_disj f (Suc n) cs))
          else if c = CHR 0x5C then
            (case cs of
               [] \<Rightarrow> None
             | e # rest \<Rightarrow>
                 if e = CHR ''d'' then parse_quant (Class Digit, n, rest)
                 else if e = CHR ''w'' then parse_quant (Class WordChar, n, rest)
                 else if e \<in> set identity_escapes then parse_quant (Lit e, n, rest)
                 else None)
          else if c = CHR ''.'' then parse_quant (Dot, n, cs)
          else if c = CHR ''^'' then Some (Bol, n, cs)
          else if c = CHR ''$'' then Some (Eol, n, cs)
          else if c \<in> set syntax_chars then None
          else parse_quant (Lit c, n, cs))"

text \<open>A compiled expression: the pattern and the number of its capturing groups.\<close>

definition fragment_new_RegExp :: "string \<Rightarrow> string \<Rightarrow> js_error + (pattern \<times> nat)" where
  "fragment_new_RegExp p flags =
     (if flags = ''us'' then
        (case parse_disj (4 * length p + 4) 0 p of
           Some (r, n, []) \<Rightarrow> Inr (r, n)
         | _ \<Rightarrow> Inl SyntaxError)
      else Inl SyntaxError)"

fun groups_of :: "pattern \<Rightarrow> nat list" where
  "groups_of (Seq a b) = groups_of a @ groups_of b"
| "groups_of (Alt a b) = groups_of a @ groups_of b"
| "groups_of (Star a) = groups_of a"
| "groups_of (Opt a) = groups_of a"
| "groups_of (Group n a) = n # groups_of a"
| "groups_of _ = []"

fun clear_groups :: "nat list \<Rightarrow> string option list \<Rightarrow> string option list" where
  "clear_groups [] c = c"
| "clear_groups (n # ns) c = clear_groups ns (c[n := None])"

text \<open>
  The matcher in continuation-passing style, as the specification of the language
  defines it: \<open>k\<close> continues the match from the position and the captures reached.
  A repetition clears the captures of its body at the start of every iteration and
  refuses an iteration that consumed nothing.
\<close>

function matcher ::
  "string \<Rightarrow> pattern \<Rightarrow> nat \<Rightarrow> string option list \<Rightarrow>
   (nat \<Rightarrow> string option list \<Rightarrow> 'a option) \<Rightarrow> 'a option" where
  "matcher s Empty i c k = k i c"
| "matcher s (Lit a) i c k = (if i < length s \<and> s ! i = a then k (Suc i) c else None)"
| "matcher s Dot i c k = (if i < length s then k (Suc i) c else None)"
| "matcher s (Class cl) i c k =
     (if i < length s \<and> in_class cl (s ! i) then k (Suc i) c else None)"
| "matcher s Bol i c k = (if i = 0 then k i c else None)"
| "matcher s Eol i c k = (if i = length s then k i c else None)"
| "matcher s (Seq a b) i c k = matcher s a i c (\<lambda>j c'. matcher s b j c' k)"
| "matcher s (Alt a b) i c k =
     (case matcher s a i c k of Some r \<Rightarrow> Some r | None \<Rightarrow> matcher s b i c k)"
| "matcher s (Group n a) i c k =
     matcher s a i c (\<lambda>j c'. k j (c'[n := Some (take (j - i) (drop i s))]))"
| "matcher s (Opt a) i c k =
     (case matcher s a i (clear_groups (groups_of a) c)
             (\<lambda>j c'. if i < j then k j c' else None) of
        Some r \<Rightarrow> Some r
      | None \<Rightarrow> k i c)"
| "matcher s (Star a) i c k =
     (case matcher s a i (clear_groups (groups_of a) c)
             (\<lambda>j c'. if i < j \<and> j \<le> length s then matcher s (Star a) j c' k else None) of
        Some r \<Rightarrow> Some r
      | None \<Rightarrow> k i c)"
  by pat_completeness auto
termination
  by (relation "measures [\<lambda>(s, p, i, c, k). size p, \<lambda>(s, p, i, c, k). length s - i]") auto

text \<open>The search for the leftmost match: the start positions are tried in order.\<close>

fun exec_from :: "pattern \<times> nat \<Rightarrow> string \<Rightarrow> nat list \<Rightarrow> string option list option" where
  "exec_from re s [] = None"
| "exec_from re s (i # is) =
     (case matcher s (fst re) i (replicate (snd re) None) (\<lambda>j c. Some (j, c)) of
        Some (j, c) \<Rightarrow> Some (Some (take (j - i) (drop i s)) # c)
      | None \<Rightarrow> exec_from re s is)"

definition fragment_match :: "string \<Rightarrow> pattern \<times> nat \<Rightarrow> string option list option" where
  "fragment_match s re = exec_from re s [0..<Suc (length s)]"

definition fragment_engine :: "(pattern \<times> nat) RegExpEngine" where
  "fragment_engine = \<lparr> new_RegExp = fragment_new_RegExp, str_match = fragment_match \<rparr>"

subsection \<open>Cell data, geometry and theme\<close>

text \<open>
  \<^verbatim>\<open>LinkCellProps\<close> and the grid's \<^verbatim>\<open>CustomCell\<close> around it. The records are extensible:
  the \<open>more\<close> part stands for every field the code does not name, which the object
  spreads \<^verbatim>\<open>{...c}\<close> and \<^verbatim>\<open>{...c.data}\<close> copy.
\<close>

record LinkCellProps =
  kind :: string
  href :: "string option"
  displayText :: "string option"

record 'd CustomCell =
  data :: 'd
  copyData :: string
  readonly :: "bool option"

type_synonym ('p, 'c) LinkCell = "('p LinkCellProps_scheme, 'c) CustomCell_scheme"

text \<open>
  Pixel quantities are JavaScript numbers, that is IEEE 754 doubles. The model takes a
  finite double as the real number it denotes; the arithmetic of the runtime on these
  numbers, with its rounding, is defined below with the host. NaN and the infinities are
  not modelled.
\<close>

record Rectangle =
  rect_x :: real
  rect_y :: real
  rect_width :: real
  rect_height :: real

record Theme =
  baseFontStyle :: string
  fontFamily :: string
  cellHorizontalPadding :: real
  linkColor :: string
  bgCell :: string
  accentLight :: string

subsection \<open>The canvas and the services of the host\<close>

text \<open>
  A 2D context is its drawing state and the calls it has received, in order. A stroke
  records the stroke style, and a text fill the fill style, in force when it was issued.
\<close>

datatype canvas_call =
    MoveTo real real
  | LineTo real real
  | Stroke string
  | FillText string string real real
  | ClosePath

record CanvasRenderingContext2D =
  font :: string
  strokeStyle :: string
  fillStyle :: string
  calls :: "canvas_call list"

definition moveTo :: "real \<Rightarrow> real \<Rightarrow> CanvasRenderingContext2D \<Rightarrow> CanvasRenderingContext2D" where
  "moveTo px py c = c\<lparr>calls := calls c @ [MoveTo px py]\<rparr>"

definition lineTo :: "real \<Rightarrow> real \<Rightarrow> CanvasRenderingContext2D \<Rightarrow> CanvasRenderingContext2D" where
  "lineTo px py c = c\<lparr>calls := calls c @ [LineTo px py]\<rparr>"

definition stroke :: "CanvasRenderingContext2D \<Rightarrow> CanvasRenderingContext2D" where
  "stroke c = c\<lparr>calls := calls c @ [Stroke (strokeStyle c)]\<rparr>"

definition fillText ::
  "string option \<Rightarrow> real \<Rightarrow> real \<Rightarrow> CanvasRenderingContext2D \<Rightarrow> CanvasRenderingContext2D" where
  "fillText t px py c = c\<lparr>calls := calls c @ [FillText (fillStyle c) (ToString t) px py]\<rparr>"

definition closePath :: "CanvasRenderingContext2D \<Rightarrow> CanvasRenderingContext2D" where
  "closePath c = c\<lparr>calls := calls c @ [ClosePath]\<rparr>"

text \<open>
  What the file takes from the browser and from the grid library:
  \<^item> \<open>getContext\<close>: the result of \<^verbatim>\<open>document.createElement("canvas").getContext("2d", ...)\<close>,
    \<open>None\<close> for \<^verbatim>\<open>null\<close>;
  \<^item> \<open>measureText\<close>: the width \<^verbatim>\<open>ctx.measureText(text).width\<close>, which depends on the state of
    the context (its font) and on the text;
  \<^item> \<open>measureTextCached\<close>, \<open>getMiddleCenterBias\<close>, \<open>blend\<close>: the helpers of the grid library
    (the first reduced to the width of the metrics it returns);
  \<^item> \<open>round_double\<close>: the rounding of the runtime's arithmetic, from the exact result of an
    operation to the double the operation returns.
\<close>

record Host =
  getContext :: "CanvasRenderingContext2D option"
  measureText :: "CanvasRenderingContext2D \<Rightarrow> string \<Rightarrow> real"
  measureTextCached :: "string \<Rightarrow> CanvasRenderingContext2D \<Rightarrow> string \<Rightarrow> real"
  getMiddleCenterBias :: "CanvasRenderingContext2D \<Rightarrow> string \<Rightarrow> real"
  blend :: "string \<Rightarrow> string \<Rightarrow> string"
  round_double :: "real \<Rightarrow> real"

text \<open>
  The arithmetic of the runtime: an operation returns the rounding of its exact result.
  Adding zero returns the other operand as it is. Nothing else is fixed about the
  rounding, so that what is proved below for every host holds for the rounding to nearest
  of IEEE 754, where \<^verbatim>\<open>200 + 1e-17\<close> is \<^verbatim>\<open>200\<close>. Comparisons are exact.
\<close>

definition js_add :: "Host \<Rightarrow> real \<Rightarrow> real \<Rightarrow> real" where
  "js_add H a b = (if b = 0 then a else if a = 0 then b else round_double H (a + b))"

definition js_sub :: "Host \<Rightarrow> real \<Rightarrow> real \<Rightarrow> real" where
  "js_sub H a b = js_add H a (- b)"

definition js_mul :: "Host \<Rightarrow> real \<Rightarrow> real \<Rightarrow> real" where
  "js_mul H a b = round_double H (a * b)"

definition js_div :: "Host \<Rightarrow> real \<Rightarrow> real \<Rightarrow> real" where
  "js_div H a b = round_double H (a / b)"

text \<open>\<^verbatim>\<open>Math.floor\<close>: the floor of a double is a double.\<close>

definition Math_floor :: "real \<Rightarrow> real" where
  "Math_floor a = of_int \<lfloor>a\<rfloor>"

subsection \<open>onClickSelect\<close>

record ('p, 'c) SelectArgs =
  posX :: real
  posY :: real
  bounds :: Rectangle
  cell :: "('p, 'c) LinkCell"
  theme :: Theme

text \<open>The font string built from the theme (lines 46 and 109).\<close>

definition theme_font :: "Theme \<Rightarrow> string" where
  "theme_font t = baseFontStyle t @ '' '' @ fontFamily t"

text \<open>The local constant \<^verbatim>\<open>textWidth\<close> of lines 53 to 55, for the context \<open>c\<close> the text is
  measured in. An undefined display value is measured as the text \<^verbatim>\<open>undefined\<close>.\<close>

definition onClickSelect_textWidth ::
  "Host \<Rightarrow> 'r RegExpEngine \<Rightarrow> CanvasRenderingContext2D \<Rightarrow> ('p, 'c, 'z) SelectArgs_scheme \<Rightarrow> real" where
  "onClickSelect_textWidth H E c e =
     js_add H
       (measureText H c
          (ToString (getLinkDisplayValue E (href (data (cell e))) (displayText (data (cell e))))))
       (js_mul H (cellHorizontalPadding (theme e)) 2)"

definition onClickSelect ::
  "Host \<Rightarrow> 'r RegExpEngine \<Rightarrow> ('p, 'c, 'z) SelectArgs_scheme \<Rightarrow> string option" where
  "onClickSelect H E e =
     (case getContext H of
        None \<Rightarrow> None
      | Some canvas \<Rightarrow>
          (let c = canvas\<lparr>font := theme_font (theme e)\<rparr>;
               rectHoverX = js_add H (rect_x (bounds e)) (posX e);
               textWidth = onClickSelect_textWidth H E c e;
               isHovered = (rectHoverX > rect_x (bounds e)
                            \<and> rectHoverX < js_add H (rect_x (bounds e)) textWidth)
           in if isHovered then href (data (cell e)) else None))"

subsection \<open>linkCellRenderer\<close>

definition UNDERLINE_OFFSET :: real where
  "UNDERLINE_OFFSET = 5"

record DrawArgs =
  ctx :: CanvasRenderingContext2D
  rect :: Rectangle
  args_theme :: Theme
  hoverX :: "real option"
  highlighted :: bool

text \<open>The statements under \<^verbatim>\<open>if (isHovered)\<close> in \<^verbatim>\<open>draw\<close> (lines 117 to 136): the
  underline, then the display text four times in the background colour.\<close>

definition draw_hovered ::
  "Host \<Rightarrow> Theme \<Rightarrow> bool \<Rightarrow> string option \<Rightarrow> string \<Rightarrow> real \<Rightarrow> real \<Rightarrow>
   CanvasRenderingContext2D \<Rightarrow> CanvasRenderingContext2D" where
  "draw_hovered H t hl displayValue fnt drawX drawY c0 =
     (let metrics_width = measureTextCached H (ToString displayValue) c0 fnt;
          c1 = moveTo drawX
                 (js_add H (Math_floor (js_add H drawY UNDERLINE_OFFSET)) 0.5) c0;
          c2 = lineTo (js_add H drawX metrics_width)
                 (js_add H (Math_floor (js_add H drawY UNDERLINE_OFFSET)) 0.5) c1;
          c3 = stroke (c2\<lparr>strokeStyle := linkColor t\<rparr>);
          c4 = c3\<lparr>fillStyle := (if hl then blend H (accentLight t) (bgCell t) else bgCell t)\<rparr>;
          c5 = fillText displayValue (js_sub H drawX 1) drawY c4;
          c6 = fillText displayValue (js_add H drawX 1) drawY c5;
          c7 = fillText displayValue (js_sub H drawX 2) drawY c6
      in fillText displayValue (js_add H drawX 2) drawY c7)"

text \<open>\<^verbatim>\<open>draw\<close> returns \<^verbatim>\<open>true\<close>, or \<^verbatim>\<open>undefined\<close> (here \<open>None\<close>) when \<^verbatim>\<open>href\<close> is undefined,
  together with the context after the calls. An absent \<^verbatim>\<open>hoverX\<close> defaults to \<open>-100\<close>.\<close>

definition draw ::
  "Host \<Rightarrow> 'r RegExpEngine \<Rightarrow> 'z DrawArgs_scheme \<Rightarrow> ('p, 'c) LinkCell \<Rightarrow>
   bool option \<times> CanvasRenderingContext2D" where
  "draw H E args cl =
     (case href (data cl) of
        None \<Rightarrow> (None, ctx args)
      | Some h \<Rightarrow>
          (let displayValue = getLinkDisplayValue E (Some h) (displayText (data cl));
               xPad = cellHorizontalPadding (args_theme args);
               drawX = js_add H (rect_x (rect args)) xPad;
               rectHoverX = js_add H (rect_x (rect args))
                              (case hoverX args of None \<Rightarrow> - 100 | Some v \<Rightarrow> v);
               fnt = theme_font (args_theme args);
               c1 = (ctx args)\<lparr>font := fnt\<rparr>;
               middleCenterBias = getMiddleCenterBias H c1 fnt;
               drawY = js_add H
                         (js_add H (rect_y (rect args)) (js_div H (rect_height (rect args)) 2))
                         middleCenterBias;
               isHovered = (rectHoverX > rect_x (rect args)
                            \<and> rectHoverX
                                < js_add H (rect_x (rect args)) (rect_width (rect args)));
               c2 = (if isHovered
                     then draw_hovered H (args_theme args) (highlighted args)
                            displayValue fnt drawX drawY c1
                     else c1);
               c3 = fillText displayValue drawX drawY (c2\<lparr>fillStyle := linkColor (args_theme args)\<rparr>)
           in (Some True, closePath c3)))"

text \<open>The calls one invocation of \<^verbatim>\<open>draw\<close> issues: those after the calls the context
  had already received.\<close>

definition draw_calls ::
  "Host \<Rightarrow> 'r RegExpEngine \<Rightarrow> 'z DrawArgs_scheme \<Rightarrow> ('p, 'c) LinkCell \<Rightarrow> canvas_call list" where
  "draw_calls H E args cl = drop (length (calls (ctx args))) (calls (snd (draw H E args cl)))"

definition isMatch :: "('p, 'c) LinkCell \<Rightarrow> bool" where
  "isMatch c = (kind (data c) = ''link-cell'')"

text \<open>The callback \<^verbatim>\<open>measure\<close>, named \<open>measure_cell\<close> here: \<open>measure\<close> is a constant of the
  logic.\<close>

definition measure_cell ::
  "Host \<Rightarrow> 'r RegExpEngine \<Rightarrow> CanvasRenderingContext2D \<Rightarrow> ('p, 'c) LinkCell \<Rightarrow> Theme \<Rightarrow> real" where
  "measure_cell H E c cl t =
     (if href (data cl) = None then 0
      else js_add H
             (measureText H c
                (ToString (getLinkDisplayValue E (href (data cl)) (displayText (data cl)))))
             (js_mul H (cellHorizontalPadding t) 2))"

text \<open>\<^verbatim>\<open>onSelect\<close> returns nothing; what it does is the list of windows it opens.\<close>

datatype effect = WindowOpen string string

definition onSelect ::
  "Host \<Rightarrow> 'r RegExpEngine \<Rightarrow> ('p, 'c, 'z) SelectArgs_scheme \<Rightarrow> effect list" where
  "onSelect H E e =
     (case onClickSelect H E e of
        Some redirectLink \<Rightarrow> [WindowOpen redirectLink ''_blank'']
      | None \<Rightarrow> [])"

definition onDelete :: "('p, 'c) LinkCell \<Rightarrow> ('p, 'c) LinkCell" where
  "onDelete c = c\<lparr>data := (data c)\<lparr>displayText := Some [], href := Some []\<rparr>\<rparr>"

text \<open>The change handler that \<^verbatim>\<open>provideEditor\<close> passes to the overlay editor, applied to the
  edited text \<^verbatim>\<open>e.target.value\<close>.\<close>

definition provideEditor_onChange :: "('p, 'c) LinkCell \<Rightarrow> string \<Rightarrow> ('p, 'c) LinkCell" where
  "provideEditor_onChange v target_value =
     v\<lparr>copyData := target_value,
       data := (data v)\<lparr>href := Some target_value, displayText := displayText (data v)\<rparr>\<rparr>"

text \<open>\<^verbatim>\<open>onPaste\<close> returns \<^verbatim>\<open>undefined\<close> (here \<open>None\<close>) to leave the cell as it is.\<close>

definition onPaste ::
  "string \<Rightarrow> 'p LinkCellProps_scheme \<Rightarrow> 'p LinkCellProps_scheme option" where
  "onPaste toPaste cellData =
     (if Some toPaste = href cellData then None else Some (cellData\<lparr>href := Some toPaste\<rparr>))"

subsection \<open>A host and cells for the examples\<close>

text \<open>A host with a fixed-width font of 7 pixels a character, whatever the context. Its
  arithmetic is exact: the numbers of the examples below are integers and halves of a few
  digits, which doubles represent and on which the operations of IEEE 754 are exact.\<close>

definition example_canvas :: CanvasRenderingContext2D where
  "example_canvas =
     \<lparr>font = ''10px sans-serif'', strokeStyle = ''#000000'', fillStyle = ''#000000'', calls = []\<rparr>"

definition example_host :: Host where
  "example_host =
     \<lparr>getContext = Some example_canvas,
      measureText = (\<lambda>c t. 7 * real (length t)),
      measureTextCached = (\<lambda>t c f. 7 * real (length t)),
      getMiddleCenterBias = (\<lambda>c f. 0),
      blend = (\<lambda>a b. a @ ''+'' @ b),
      round_double = (\<lambda>r. r)\<rparr>"

definition example_theme :: Theme where
  "example_theme =
     \<lparr>baseFontStyle = ''13px'', fontFamily = ''sans-serif'', cellHorizontalPadding = 8,
      linkColor = ''#0000ee'', bgCell = ''#ffffff'', accentLight = ''#eeeeff''\<rparr>"

definition example_cell :: "string option \<Rightarrow> string option \<Rightarrow> (unit, unit) LinkCell" where
  "example_cell h d =
     \<lparr>data = \<lparr>kind = ''link-cell'', href = h, displayText = d\<rparr>,
      copyData = ToString h, readonly = None\<rparr>"

definition example_select ::
  "real \<Rightarrow> real \<Rightarrow> (unit, unit) LinkCell \<Rightarrow> (unit, unit) SelectArgs" where
  "example_select px w cl =
     \<lparr>posX = px, posY = 10,
      bounds = \<lparr>rect_x = 200, rect_y = 40, rect_width = w, rect_height = 30\<rparr>,
      cell = cl, theme = example_theme\<rparr>"

text \<open>The arguments \<^verbatim>\<open>draw\<close> receives for the geometry, theme and pointer of the arguments
  \<open>e\<close> of \<^verbatim>\<open>onClickSelect\<close>, on the context \<open>c\<close>.\<close>

definition draw_args_for ::
  "CanvasRenderingContext2D \<Rightarrow> bool \<Rightarrow> ('p, 'c, 'z) SelectArgs_scheme \<Rightarrow> DrawArgs" where
  "draw_args_for c hl e =
     \<lparr>ctx = c, rect = bounds e, args_theme = theme e, hoverX = Some (posX e), highlighted = hl\<rparr>"

section \<open>Properties\<close>

subsection \<open>Auxiliary facts\<close>

text \<open>Where \<^verbatim>\<open>onClickSelect\<close> surfaces a target, \<^verbatim>\<open>href\<close> is defined and the pointer position
  \<^verbatim>\<open>rect.x + posX\<close> is right of the left edge.\<close>

lemma onClickSelect_target:
  assumes "onClickSelect H E e \<noteq> None"
  shows "href (data (cell e)) \<noteq> None
         \<and> rect_x (bounds e) < js_add H (rect_x (bounds e)) (posX e)"
  using assms by (auto simp add: onClickSelect_def Let_def split: option.splits if_splits)

text \<open>\<^verbatim>\<open>draw\<close> strokes the underline when \<^verbatim>\<open>href\<close> is defined and the pointer position lies
  strictly between the left edge and the right edge of the cell.\<close>

lemma draw_calls_hovered:
  assumes "href (data cl) = Some h"
    and "hoverX args = Some v"
    and "rect_x (rect args) < js_add H (rect_x (rect args)) v"
    and "js_add H (rect_x (rect args)) v
           < js_add H (rect_x (rect args)) (rect_width (rect args))"
  shows "Stroke (linkColor (args_theme args)) \<in> set (draw_calls H E args cl)"
  using assms
  by (simp add: draw_calls_def draw_def draw_hovered_def Let_def moveTo_def lineTo_def
      stroke_def fillText_def closePath_def)

subsection \<open>The display value\<close>

text \<open>
  Claim C9. For every \<^verbatim>\<open>href\<close>, the resolver called with \<^verbatim>\<open>displayText\<close> absent or the empty
  string returns \<^verbatim>\<open>href\<close> unchanged.
\<close>

theorem resolve_no_displayText:
  "getLinkDisplayValue E h None = h \<and> getLinkDisplayValue E h (Some []) = h"
  by (simp add: getLinkDisplayValue_def js_not_def)


text \<open>
  Claim C7. For every \<^verbatim>\<open>href\<close> and every \<^verbatim>\<open>displayText\<close> that compiles and matches \<^verbatim>\<open>href\<close> with
  a first capturing group that took part in the match, the resolver returns the text this
  group captured (index 1 of the match array), not the whole match (index 0).
\<close>

theorem resolve_first_group:
  assumes "d \<noteq> []"
    and "new_RegExp E d ''us'' = Inr re"
    and "str_match E h re = Some patternMatch"
    and "js_index patternMatch 1 = Some g"
  shows "getLinkDisplayValue E (Some h) (Some d) = Some g"
  using assms by (simp add: getLinkDisplayValue_def getLinkDisplayValue_try_def js_not_def)

text \<open>The example of the specification: the pattern \<^verbatim>\<open>users/(\d+)\<close> on
  \<^verbatim>\<open>https://example.com/users/42\<close> resolves to \<^verbatim>\<open>42\<close>, where the whole match is
  \<^verbatim>\<open>users/42\<close>.\<close>

theorem resolve_first_group_witness:
  "new_RegExp fragment_engine (''users/('' @ [CHR 0x5C] @ ''d+)'') ''us''
     = Inr (Seq (Lit CHR ''u'') (Seq (Lit CHR ''s'') (Seq (Lit CHR ''e'') (Seq (Lit CHR ''r'')
         (Seq (Lit CHR ''s'') (Seq (Lit CHR ''/'')
           (Seq (Group 0 (Seq (Seq (Class Digit) (Star (Class Digit))) Empty)) Empty)))))), 1)
   \<and> str_match fragment_engine ''https://example.com/users/42''
        (Seq (Lit CHR ''u'') (Seq (Lit CHR ''s'') (Seq (Lit CHR ''e'') (Seq (Lit CHR ''r'')
         (Seq (Lit CHR ''s'') (Seq (Lit CHR ''/'')
           (Seq (Group 0 (Seq (Seq (Class Digit) (Star (Class Digit))) Empty)) Empty)))))), 1)
     = Some [Some ''users/42'', Some ''42'']
   \<and> getLinkDisplayValue fragment_engine (Some ''https://example.com/users/42'')
        (Some (''users/('' @ [CHR 0x5C] @ ''d+)'')) = Some ''42''"
proof -
  let ?re = "(Seq (Lit CHR ''u'') (Seq (Lit CHR ''s'') (Seq (Lit CHR ''e'') (Seq (Lit CHR ''r'')
         (Seq (Lit CHR ''s'') (Seq (Lit CHR ''/'')
           (Seq (Group 0 (Seq (Seq (Class Digit) (Star (Class Digit))) Empty)) Empty)))))),
         1::nat)"
  have a: "''users/('' @ [CHR 0x5C] @ ''d+)'' \<noteq> []" by simp
  have b: "new_RegExp fragment_engine (''users/('' @ [CHR 0x5C] @ ''d+)'') ''us'' = Inr ?re"
    by code_simp
  have c: "str_match fragment_engine ''https://example.com/users/42'' ?re
             = Some [Some ''users/42'', Some ''42'']"
    by code_simp
  have d: "js_index [Some ''users/42'', Some ''42''] 1 = Some ''42''" by simp
  show ?thesis using resolve_first_group [OF a b c d] b c by simp
qed

text \<open>
  Claim C8. For every \<^verbatim>\<open>href\<close> and every non-empty \<^verbatim>\<open>displayText\<close> that fails to compile, or
  compiles and does not match \<^verbatim>\<open>href\<close>, the resolver returns \<^verbatim>\<open>displayText\<close> unchanged. The
  error of the compilation is a value of \<open>getLinkDisplayValue_try\<close> that
  \<open>getLinkDisplayValue\<close> turns into this result: the resolver itself raises nothing.
\<close>

theorem resolve_fallback:
  assumes "d \<noteq> []"
    and "new_RegExp E d ''us'' = Inl err
         \<or> (new_RegExp E d ''us'' = Inr re \<and> str_match E h re = None)"
  shows "getLinkDisplayValue E (Some h) (Some d) = Some d"
  using assms by (auto simp add: getLinkDisplayValue_def getLinkDisplayValue_try_def js_not_def)

text \<open>Both cases on \<^verbatim>\<open>https://example.com\<close>: the malformed pattern \<^verbatim>\<open>(a\<close>, and the label
  \<^verbatim>\<open>not a link\<close> of the specification, which compiles and does not match.\<close>

theorem resolve_fallback_witness:
  "new_RegExp fragment_engine ''(a'' ''us'' = Inl SyntaxError
   \<and> getLinkDisplayValue fragment_engine (Some ''https://example.com'') (Some ''(a'') = Some ''(a''
   \<and> new_RegExp fragment_engine ''not a link'' ''us''
       = Inr (Seq (Lit CHR ''n'') (Seq (Lit CHR ''o'') (Seq (Lit CHR ''t'') (Seq (Lit CHR '' '')
           (Seq (Lit CHR ''a'') (Seq (Lit CHR '' '') (Seq (Lit CHR ''l'') (Seq (Lit CHR ''i'')
           (Seq (Lit CHR ''n'') (Seq (Lit CHR ''k'') Empty))))))))), 0)
   \<and> str_match fragment_engine ''https://example.com''
         (Seq (Lit CHR ''n'') (Seq (Lit CHR ''o'') (Seq (Lit CHR ''t'') (Seq (Lit CHR '' '')
           (Seq (Lit CHR ''a'') (Seq (Lit CHR '' '') (Seq (Lit CHR ''l'') (Seq (Lit CHR ''i'')
           (Seq (Lit CHR ''n'') (Seq (Lit CHR ''k'') Empty))))))))), 0) = None
   \<and> getLinkDisplayValue fragment_engine (Some ''https://example.com'') (Some ''not a link'')
       = Some ''not a link''"
proof -
  let ?re = "(Seq (Lit CHR ''n'') (Seq (Lit CHR ''o'') (Seq (Lit CHR ''t'') (Seq (Lit CHR '' '')
           (Seq (Lit CHR ''a'') (Seq (Lit CHR '' '') (Seq (Lit CHR ''l'') (Seq (Lit CHR ''i'')
           (Seq (Lit CHR ''n'') (Seq (Lit CHR ''k'') Empty))))))))), 0::nat)"
  have a: "new_RegExp fragment_engine ''(a'' ''us'' = Inl SyntaxError" by code_simp
  have b: "new_RegExp fragment_engine ''not a link'' ''us'' = Inr ?re" by code_simp
  have c: "str_match fragment_engine ''https://example.com'' ?re = None" by code_simp
  have n1: "''(a'' \<noteq> []" and n2: "''not a link'' \<noteq> []" by simp_all
  from a have a': "new_RegExp fragment_engine ''(a'' ''us'' = Inl SyntaxError
     \<or> (new_RegExp fragment_engine ''(a'' ''us'' = Inr ?re
         \<and> str_match fragment_engine ''https://example.com'' ?re = None)"
    by simp
  from b c have b': "new_RegExp fragment_engine ''not a link'' ''us'' = Inl SyntaxError
     \<or> (new_RegExp fragment_engine ''not a link'' ''us'' = Inr ?re
         \<and> str_match fragment_engine ''https://example.com'' ?re = None)"
    by simp
  show ?thesis
    using resolve_fallback [OF n1 a'] resolve_fallback [OF n2 b'] a b c by simp
qed

text \<open>
  Claim C1. The claim is that a pattern that matches \<^verbatim>\<open>href\<close> with no usable first group
  resolves to \<^verbatim>\<open>displayText\<close>. The code returns \<^verbatim>\<open>patternMatch[1]\<close> whenever there is a match,
  and that is \<^verbatim>\<open>undefined\<close> here. On \<^verbatim>\<open>https://example.com\<close> the label \<^verbatim>\<open>example\<close> matches with
  the match array \<^verbatim>\<open>["example"]\<close>, and the pattern \<^verbatim>\<open>(x)|e\<close> matches with the array
  \<^verbatim>\<open>["e", undefined]\<close>: the resolver returns \<^verbatim>\<open>undefined\<close> for both, not the label and not
  the pattern.
\<close>

theorem resolve_match_without_group:
  "new_RegExp fragment_engine ''example'' ''us''
     = Inr (Seq (Lit CHR ''e'') (Seq (Lit CHR ''x'') (Seq (Lit CHR ''a'') (Seq (Lit CHR ''m'')
         (Seq (Lit CHR ''p'') (Seq (Lit CHR ''l'') (Seq (Lit CHR ''e'') Empty)))))), 0)
   \<and> str_match fragment_engine ''https://example.com''
        (Seq (Lit CHR ''e'') (Seq (Lit CHR ''x'') (Seq (Lit CHR ''a'') (Seq (Lit CHR ''m'')
         (Seq (Lit CHR ''p'') (Seq (Lit CHR ''l'') (Seq (Lit CHR ''e'') Empty)))))), 0)
     = Some [Some ''example'']
   \<and> getLinkDisplayValue fragment_engine (Some ''https://example.com'') (Some ''example'') = None
   \<and> new_RegExp fragment_engine ''(x)|e'' ''us''
     = Inr (Alt (Seq (Group 0 (Seq (Lit CHR ''x'') Empty)) Empty) (Seq (Lit CHR ''e'') Empty), 1)
   \<and> str_match fragment_engine ''https://example.com''
        (Alt (Seq (Group 0 (Seq (Lit CHR ''x'') Empty)) Empty) (Seq (Lit CHR ''e'') Empty), 1)
     = Some [Some ''e'', None]
   \<and> getLinkDisplayValue fragment_engine (Some ''https://example.com'') (Some ''(x)|e'') = None"
  by code_simp

subsection \<open>Paste and delete\<close>

text \<open>
  Claim C5. For every pasted text and every cell data record: if the pasted text equals the
  \<^verbatim>\<open>href\<close> of the record, \<^verbatim>\<open>onPaste\<close> returns \<^verbatim>\<open>undefined\<close> (no change); otherwise it returns a
  record whose \<^verbatim>\<open>href\<close> is the pasted text and whose \<^verbatim>\<open>displayText\<close>, like every other field,
  is unchanged.
\<close>

theorem onPaste_spec:
  "(Some t = href d \<longrightarrow> onPaste t d = None)
   \<and> (Some t \<noteq> href d \<longrightarrow>
        (\<exists>d'. onPaste t d = Some d' \<and> href d' = Some t \<and> displayText d' = displayText d
              \<and> kind d' = kind d \<and> LinkCellProps.more d' = LinkCellProps.more d))"
  by (simp add: onPaste_def)

theorem onPaste_spec_witness:
  "onPaste ''https://a.example''
     \<lparr>kind = ''link-cell'', href = Some ''https://a.example'', displayText = Some ''A''\<rparr> = None
   \<and> (\<exists>d'. onPaste ''https://b.example''
               \<lparr>kind = ''link-cell'', href = Some ''https://a.example'', displayText = Some ''A''\<rparr>
             = Some d'
          \<and> href d' = Some ''https://b.example'' \<and> displayText d' = Some ''A'')"
  using
    onPaste_spec [of "''https://a.example''"
      "\<lparr>kind = ''link-cell'', href = Some ''https://a.example'', displayText = Some ''A''\<rparr>"]
    onPaste_spec [of "''https://b.example''"
      "\<lparr>kind = ''link-cell'', href = Some ''https://a.example'', displayText = Some ''A''\<rparr>"]
  by auto

text \<open>
  Claim C6. For every cell, \<^verbatim>\<open>onDelete\<close> returns a cell whose \<^verbatim>\<open>href\<close> and \<^verbatim>\<open>displayText\<close> are the
  empty string and whose other fields, of the data record and of the cell around it, are
  unchanged. \<open>onDelete\<close> is a total function: it has a result for every cell.
\<close>

theorem onDelete_spec:
  "href (data (onDelete c)) = Some [] \<and> displayText (data (onDelete c)) = Some []
   \<and> kind (data (onDelete c)) = kind (data c)
   \<and> LinkCellProps.more (data (onDelete c)) = LinkCellProps.more (data c)
   \<and> copyData (onDelete c) = copyData c \<and> readonly (onDelete c) = readonly c
   \<and> CustomCell.more (onDelete c) = CustomCell.more c"
  by (simp add: onDelete_def)

subsection \<open>Hit test, hover and measure\<close>

lemmas example_defs = example_host_def example_canvas_def example_theme_def example_cell_def
  example_select_def onClickSelect_def onClickSelect_textWidth_def Let_def theme_font_def
  getLinkDisplayValue_def js_not_def ToString_def measure_cell_def onSelect_def
  js_add_def js_sub_def js_mul_def js_div_def Math_floor_def

text \<open>
  Claim C10. The activation zone excludes both of its boundaries: a pointer offset of
  exactly 0, or of exactly the measured text width plus twice the horizontal padding,
  yields no activation target. This holds for every cell, whatever its \<^verbatim>\<open>href\<close>, and
  whatever the rounding of the sums.
\<close>

theorem activation_excludes_boundaries:
  assumes "getContext H = Some canvas"
  shows "onClickSelect H E (e\<lparr>posX := 0\<rparr>) = None
    \<and> onClickSelect H E
         (e\<lparr>posX := js_add H
                      (measureText H (canvas\<lparr>font := theme_font (theme e)\<rparr>)
                         (ToString (getLinkDisplayValue E (href (data (cell e)))
                                      (displayText (data (cell e))))))
                      (js_mul H (cellHorizontalPadding (theme e)) 2)\<rparr>) = None"
  using assms
  by (simp add: onClickSelect_def onClickSelect_textWidth_def Let_def js_add_def)

text \<open>For the 19 characters of \<^verbatim>\<open>https://example.com\<close>, 7 pixels each, and a padding of 8, the
  right boundary is the offset 149; the offset 148 is inside the zone.\<close>

theorem activation_excludes_boundaries_witness:
  "getContext example_host = Some example_canvas
   \<and> onClickSelect example_host fragment_engine (example_select 0 500 (example_cell (Some ''https://example.com'') None)) = None
   \<and> onClickSelect example_host fragment_engine (example_select 149 500 (example_cell (Some ''https://example.com'') None)) = None
   \<and> onClickSelect example_host fragment_engine (example_select 148 500 (example_cell (Some ''https://example.com'') None))
       = Some ''https://example.com''"
proof -
  let ?e = "example_select 0 500 (example_cell (Some ''https://example.com'') None)"
  have g: "getContext example_host = Some example_canvas" by (simp add: example_host_def)
  have w: "js_add example_host
             (measureText example_host (example_canvas\<lparr>font := theme_font (theme ?e)\<rparr>)
                (ToString (getLinkDisplayValue fragment_engine (href (data (cell ?e)))
                             (displayText (data (cell ?e))))))
             (js_mul example_host (cellHorizontalPadding (theme ?e)) 2) = 149"
    by (simp add: example_defs)
  have u: "?e\<lparr>posX := 0\<rparr> = example_select 0 500 (example_cell (Some ''https://example.com'') None)"
    "?e\<lparr>posX := 149\<rparr> = example_select 149 500 (example_cell (Some ''https://example.com'') None)"
    by (simp_all add: example_select_def)
  have i: "onClickSelect example_host fragment_engine (example_select 148 500 (example_cell (Some ''https://example.com'') None))
             = Some ''https://example.com''"
    by (simp add: example_defs)
  show ?thesis
    using activation_excludes_boundaries [OF g, of fragment_engine ?e] g i
    unfolding w u by simp
qed

text \<open>
  Claim C3, as stated, covers a cell whose \<^verbatim>\<open>href\<close> is the empty string. The code tests
  \<^verbatim>\<open>href === undefined\<close> only: an empty \<^verbatim>\<open>href\<close> is measured like any other, at twice the
  padding, and a click at the offset 5 surfaces it, so that \<^verbatim>\<open>onSelect\<close> opens a window.
\<close>

theorem empty_href_counterexample:
  "href (data (cell (example_select 5 500 (example_cell (Some []) None)))) = Some []
   \<and> onClickSelect example_host fragment_engine
        (example_select 5 500 (example_cell (Some []) None)) = Some []
   \<and> onSelect example_host fragment_engine
        (example_select 5 500 (example_cell (Some []) None)) = [WindowOpen [] ''_blank'']
   \<and> measure_cell example_host fragment_engine example_canvas
        (example_cell (Some []) None) example_theme = 16"
  by (simp add: example_defs)

text \<open>
  Claim C3, amended. For every cell whose \<^verbatim>\<open>href\<close> is undefined, and for every pointer
  position, geometry and theme, \<^verbatim>\<open>onClickSelect\<close> surfaces no activation target, \<^verbatim>\<open>onSelect\<close>
  opens nothing, and \<^verbatim>\<open>measure\<close> returns 0.
\<close>

theorem undefined_href_inert:
  assumes "href (data (cell e)) = None"
  shows "onClickSelect H E e = None \<and> onSelect H E e = []
         \<and> measure_cell H E c (cell e) t = 0"
  using assms
  by (simp add: onSelect_def onClickSelect_def measure_cell_def Let_def split: option.splits)

theorem undefined_href_inert_witness:
  "href (data (cell (example_select 5 500 (example_cell None (Some ''label''))))) = None
   \<and> onClickSelect example_host fragment_engine
        (example_select 5 500 (example_cell None (Some ''label''))) = None
   \<and> onSelect example_host fragment_engine
        (example_select 5 500 (example_cell None (Some ''label''))) = []
   \<and> measure_cell example_host fragment_engine example_canvas
        (example_cell None (Some ''label'')) example_theme = 0"
proof -
  let ?e = "example_select 5 500 (example_cell None (Some ''label''))"
  have h: "href (data (cell ?e)) = None"
    by (simp add: example_select_def example_cell_def)
  have c: "cell ?e = example_cell None (Some ''label'')"
    by (simp add: example_select_def)
  show ?thesis
    using undefined_href_inert [OF h, of example_host fragment_engine example_canvas example_theme] h
    unfolding c by simp
qed






text \<open>Where the two sums are exact, the pointer is within the cell when its offset is
  smaller than the width of the cell.\<close>

lemma hover_contains_activation_exact_sums:
  assumes "round_double H (rect_x (bounds e) + posX e) = rect_x (bounds e) + posX e"
    and "round_double H (rect_x (bounds e) + rect_width (bounds e))
           = rect_x (bounds e) + rect_width (bounds e)"
    and "posX e < rect_width (bounds e)"
    and "onClickSelect H E e \<noteq> None"
  shows "Stroke (linkColor (theme e)) \<in> set (draw_calls H E (draw_args_for c hl e) (cell e))"
proof -
  from onClickSelect_target [OF assms(4)]
  obtain h where h: "href (data (cell e)) = Some h"
    and l: "rect_x (bounds e) < js_add H (rect_x (bounds e)) (posX e)"
    by auto
  from assms(1) have p: "js_add H (rect_x (bounds e)) (posX e) = rect_x (bounds e) + posX e"
    by (simp add: js_add_def)
  from assms(2) have w: "js_add H (rect_x (bounds e)) (rect_width (bounds e))
                           = rect_x (bounds e) + rect_width (bounds e)"
    by (simp add: js_add_def)
  from assms(3) p w
  have r: "js_add H (rect_x (bounds e)) (posX e)
             < js_add H (rect_x (bounds e)) (rect_width (bounds e))"
    by simp
  show ?thesis
    using draw_calls_hovered [of "cell e" h "draw_args_for c hl e" "posX e" H E] h l r
    by (simp add: draw_args_for_def)
qed

end
